theory Spec2Isabelle
  imports Main
begin

section \<open>The dfTimewolf state (dftimewolf/lib/state.py)\<close>

text \<open>
  The class \<open>DFTimewolfState\<close> is embedded as a record that every method takes and
  returns. Opaque Python objects (module instances, container payloads, the items of
  the staging buffers) are represented by their identity, a natural number.
\<close>

type_synonym obj = nat

type_synonym addr = nat

text \<open>An attribute container: its class attribute \<open>CONTAINER_TYPE\<close> and its payload.\<close>

record container =
  CONTAINER_TYPE :: string
  payload :: obj

text \<open>A module description of a recipe: \<open>{'name': ..., 'args': ..., 'wants': ...}\<close>.\<close>

record module_description =
  name :: string
  args :: "(string \<times> string) list"
  wants :: "string list"

record recipe =
  modules :: "module_description list"

text \<open>
  The attributes set by \<open>__init__\<close>. The lists \<open>errors\<close>, \<open>global_errors\<close>,
  \<open>input\<close> and \<open>output\<close> (here \<open>state_input\<close> and \<open>state_output\<close>) are held by
  value. The lists kept in the dict \<open>store\<close> are
  shared with the callers of \<open>get_containers\<close>, so \<open>store\<close> maps a type tag to the address
  of a list object and \<open>heap\<close> gives the contents at each address; \<open>next_addr\<close> is the
  first address not yet allocated. \<open>events\<close> maps a module name to the flag of its
  \<open>threading.Event\<close>. \<open>stdout\<close> collects the lines written by \<open>print\<close>.
\<close>

record DFTimewolfState =
  errors :: "(string \<times> bool) list"
  global_errors :: "(string \<times> bool) list"
  state_input :: "obj list"
  state_output :: "obj list"
  store :: "string \<rightharpoonup> addr"
  heap :: "addr \<Rightarrow> container list"
  next_addr :: addr
  module_pool :: "string \<rightharpoonup> obj"
  recipe :: "recipe option"
  events :: "string \<rightharpoonup> bool"
  stdout :: "string list"

definition init :: DFTimewolfState where
  "init = \<lparr>errors = [], global_errors = [], state_input = [], state_output = [],
            store = Map.empty, heap = (\<lambda>_. []), next_addr = 0,
            module_pool = Map.empty, recipe = None, events = Map.empty, stdout = []\<rparr>"

definition print :: "string \<Rightarrow> DFTimewolfState \<Rightarrow> DFTimewolfState" where
  "print line s = s\<lparr>stdout := stdout s @ [line]\<rparr>"

subsection \<open>Exceptions\<close>

text \<open>
  A raised exception, as far as the handlers of this file look at it: whether it is an
  instance of \<open>DFTimewolfError\<close> (declared in dftimewolf/lib/errors.py, which is not
  among the sources, so nothing is assumed about its base class), whether it is an
  instance of \<open>Exception\<close> (\<open>SystemExit\<close>, \<open>KeyboardInterrupt\<close> and \<open>GeneratorExit\<close>
  are not), its attribute \<open>message\<close> and the value of \<open>str(error)\<close>.
\<close>

record py_exception =
  isinstance_DFTimewolfError :: bool
  isinstance_Exception :: bool
  exc_message :: string
  exc_str :: string

text \<open>The outcome of a call into a collaborator.\<close>

datatype outcome = Returned | Raised py_exception

text \<open>
  How a thread's target function ends: it returns; it never returns (an
  \<open>Event.wait()\<close> on a flag that is not set); an exception of a collaborator leaves
  it; or a dict subscript of the target's own raises \<open>KeyError\<close> for a missing key,
  which nothing in the target catches.
\<close>

datatype task_result = Finished | Blocked | Propagated py_exception | KeyError string

subsection \<open>The error ledger\<close>

definition add_error :: "string \<Rightarrow> bool \<Rightarrow> DFTimewolfState \<Rightarrow> DFTimewolfState" where
  "add_error error critical s = s\<lparr>errors := errors s @ [(error, critical)]\<rparr>"

definition cleanup :: "DFTimewolfState \<Rightarrow> DFTimewolfState" where
  "cleanup s =
     (let s1 = s\<lparr>global_errors := global_errors s @ errors s\<rparr>;
          s2 = s1\<lparr>errors := []\<rparr>;
          s3 = s2\<lparr>state_input := state_output s2\<rparr>
      in s3\<lparr>state_output := []\<rparr>)"

text \<open>
  \<open>check_errors\<close> either returns or calls \<open>sys.exit(-1)\<close>, which raises
  \<open>SystemExit\<close> and ends the process with that (non-zero) status.
\<close>

datatype check_result = CheckReturned | SysExit int

definition error_line :: "string \<times> bool \<Rightarrow> string" where
  "error_line e = (if snd e then ''CRITICAL: '' else '''') @ ''  '' @ fst e"

text \<open>The \<open>for\<close> loop of \<open>check_errors\<close>: the lines printed and how the loop ends.\<close>

fun scan_errors :: "(string \<times> bool) list \<Rightarrow> string list \<times> check_result" where
  "scan_errors [] = ([], CheckReturned)"
| "scan_errors ((error, critical) # rest) =
     (if critical
      then ([error_line (error, critical), ''Critical error found. Aborting.''], SysExit (- 1))
      else (error_line (error, critical) # fst (scan_errors rest), snd (scan_errors rest)))"

definition scanned :: "DFTimewolfState \<Rightarrow> bool \<Rightarrow> (string \<times> bool) list" where
  "scanned s is_global = (if is_global then global_errors s else errors s)"

definition check_errors :: "DFTimewolfState \<Rightarrow> bool \<Rightarrow> DFTimewolfState \<times> check_result" where
  "check_errors s is_global =
     (let errs = scanned s is_global in
      if errs \<noteq> []
      then (s\<lparr>stdout := stdout s @ ''dfTimewolf encountered one or more errors:''
                                   # fst (scan_errors errs)\<rparr>,
            snd (scan_errors errs))
      else (s, CheckReturned))"

subsection \<open>The container store\<close>

text \<open>Evaluating the list display \<open>[]\<close> allocates a new, empty list object.\<close>

definition new_list :: "DFTimewolfState \<Rightarrow> addr \<times> DFTimewolfState" where
  "new_list s =
     (next_addr s, s\<lparr>heap := (heap s)(next_addr s := []), next_addr := Suc (next_addr s)\<rparr>)"

text \<open>
  \<open>self.store.setdefault(tag, [])\<close>: the list object already bound to the tag, or else
  a new empty list, which is then bound to it.
\<close>

definition setdefault :: "string \<Rightarrow> DFTimewolfState \<Rightarrow> addr \<times> DFTimewolfState" where
  "setdefault tag s =
     (case store s tag of
        Some a \<Rightarrow> (a, s)
      | None \<Rightarrow> (fst (new_list s), (snd (new_list s))\<lparr>store := (store s)(tag \<mapsto> fst (new_list s))\<rparr>))"

text \<open>\<open>list.append\<close> on the list object at an address: the object is changed in place.\<close>

definition list_append :: "addr \<Rightarrow> container \<Rightarrow> DFTimewolfState \<Rightarrow> DFTimewolfState" where
  "list_append a c s = s\<lparr>heap := (heap s)(a := heap s a @ [c])\<rparr>"

definition store_container :: "container \<Rightarrow> DFTimewolfState \<Rightarrow> DFTimewolfState" where
  "store_container c s =
     list_append (fst (setdefault (CONTAINER_TYPE c) s)) c (snd (setdefault (CONTAINER_TYPE c) s))"

text \<open>
  \<open>self.store.get(tag, [])\<close>: the list object bound to the tag itself (no copy is made),
  or else a new empty list, which is not bound to anything. The result is the address
  of the returned list.
\<close>

definition get_containers :: "string \<Rightarrow> DFTimewolfState \<Rightarrow> addr \<times> DFTimewolfState" where
  "get_containers tag s =
     (case store s tag of
        Some a \<Rightarrow> (a, s)
      | None \<Rightarrow> new_list s)"

text \<open>A run of \<open>get_containers\<close> calls, one for each tag of a list.\<close>

fun get_containers_all :: "string list \<Rightarrow> DFTimewolfState \<Rightarrow> DFTimewolfState" where
  "get_containers_all [] s = s"
| "get_containers_all (tag # tags) s = get_containers_all tags (snd (get_containers tag s))"

text \<open>
  Every list object bound in the dict has been allocated. It holds of the state built
  by \<open>__init__\<close> and every method keeps it.
\<close>

definition allocated :: "DFTimewolfState \<Rightarrow> bool" where
  "allocated s = (\<forall>tag a. store s tag = Some a \<longrightarrow> a < next_addr s)"

subsection \<open>Collaborators\<close>

text \<open>
  The code outside this file that the methods call: \<open>self.config.get_module(name)(self)\<close>
  gives a module instance or raises; \<open>utils.import_args_from_dict\<close> merges the recipe's
  arguments with the command line's; a module's \<open>setup\<close> and \<open>process\<close> (here
  \<open>module_setup\<close> and \<open>module_process\<close>) may change the state through its methods
  and attributes, and return or raise.
\<close>

record collaborators =
  get_module :: "string \<Rightarrow> py_exception + obj"
  import_args_from_dict ::
    "(string \<times> string) list \<Rightarrow> (string \<times> string) list \<Rightarrow> py_exception + (string \<times> string) list"
  module_setup :: "obj \<Rightarrow> (string \<times> string) list \<Rightarrow> DFTimewolfState \<Rightarrow> outcome \<times> DFTimewolfState"
  module_process :: "obj \<Rightarrow> DFTimewolfState \<Rightarrow> outcome \<times> DFTimewolfState"

subsection \<open>The module pool\<close>

text \<open>The \<open>for\<close> loop of \<open>load_recipe\<close>; an exception of the factory leaves it at once.\<close>

fun load_modules ::
  "collaborators \<Rightarrow> module_description list \<Rightarrow> DFTimewolfState \<Rightarrow> outcome \<times> DFTimewolfState"
where
  "load_modules env [] s = (Returned, s)"
| "load_modules env (module_description # rest) s =
     (case get_module env (name module_description) of
        Inl error \<Rightarrow> (Raised error, s)
      | Inr module \<Rightarrow>
          load_modules env rest
            (s\<lparr>module_pool := (module_pool s)(name module_description \<mapsto> module)\<rparr>))"

definition load_recipe ::
  "collaborators \<Rightarrow> recipe \<Rightarrow> DFTimewolfState \<Rightarrow> outcome \<times> DFTimewolfState"
where
  "load_recipe env r s = load_modules env (modules r) (s\<lparr>recipe := Some r\<rparr>)"

subsection \<open>The tasks of the two phases\<close>

text \<open>
  The \<open>try\<close> statement of \<open>_setup_module_thread\<close>: \<open>except Exception\<close> takes the
  instances of \<open>Exception\<close>; any other exception leaves the statement.
\<close>

definition setup_try :: "outcome \<Rightarrow> DFTimewolfState \<Rightarrow> py_exception + DFTimewolfState" where
  "setup_try oc s =
     (case oc of
        Returned \<Rightarrow> Inr s
      | Raised error \<Rightarrow>
          if isinstance_Exception error
          then Inr (add_error (''An unknown error occurred: '' @ exc_str error) True s)
          else Inl error)"

definition setup_module_thread ::
  "collaborators \<Rightarrow> (string \<times> string) list \<Rightarrow> module_description \<Rightarrow> DFTimewolfState
     \<Rightarrow> task_result \<times> DFTimewolfState"
where
  "setup_module_thread env cli module_description s =
     (case import_args_from_dict env (args module_description) cli of
        Inl error \<Rightarrow> (Propagated error, s)
      | Inr new_args \<Rightarrow>
          (case module_pool s (name module_description) of
             None \<Rightarrow> (KeyError (name module_description), s)
           | Some module \<Rightarrow>
               (case setup_try (fst (module_setup env module new_args s))
                               (snd (module_setup env module new_args s)) of
                  Inl error \<Rightarrow> (Propagated error, snd (module_setup env module new_args s))
                | Inr s1 \<Rightarrow>
                    (Finished,
                     cleanup (s1\<lparr>events := (events s1)(name module_description \<mapsto> False)\<rparr>)))))"

text \<open>
  The loop over \<open>wants\<close> at the head of \<open>_run_module_thread\<close>: \<open>self.events[blocker]\<close>
  raises \<open>KeyError\<close> for a name without an event, and \<open>wait()\<close> returns only when the
  flag is set.
\<close>

fun wait_blockers :: "(string \<rightharpoonup> bool) \<Rightarrow> string list \<Rightarrow> task_result" where
  "wait_blockers ev [] = Finished"
| "wait_blockers ev (blocker # rest) =
     (case ev blocker of
        None \<Rightarrow> KeyError blocker
      | Some flag \<Rightarrow> if flag then wait_blockers ev rest else Blocked)"

text \<open>
  The \<open>try\<close> statement of \<open>_run_module_thread\<close>: \<open>except DFTimewolfError\<close> comes
  first, then \<open>except Exception\<close>.
\<close>

definition run_try :: "outcome \<Rightarrow> DFTimewolfState \<Rightarrow> py_exception + DFTimewolfState" where
  "run_try oc s =
     (case oc of
        Returned \<Rightarrow> Inr s
      | Raised error \<Rightarrow>
          if isinstance_DFTimewolfError error
          then Inr (add_error (exc_message error) True s)
          else if isinstance_Exception error
          then Inr (add_error (''An unknown error occurred: '' @ exc_str error) True s)
          else Inl error)"

definition run_module_thread ::
  "collaborators \<Rightarrow> module_description \<Rightarrow> DFTimewolfState \<Rightarrow> task_result \<times> DFTimewolfState"
where
  "run_module_thread env module_description s =
     (case wait_blockers (events s) (wants module_description) of
        KeyError blocker \<Rightarrow> (KeyError blocker, s)
      | Propagated error \<Rightarrow> (Propagated error, s)
      | Blocked \<Rightarrow> (Blocked, s)
      | Finished \<Rightarrow>
          (case module_pool s (name module_description) of
             None \<Rightarrow> (KeyError (name module_description), s)
           | Some module \<Rightarrow>
               (case run_try (fst (module_process env module s))
                             (snd (module_process env module s)) of
                  Inl error \<Rightarrow> (Propagated error, snd (module_process env module s))
                | Inr s1 \<Rightarrow>
                    (let s2 = print (''Module '' @ name module_description @ '' completed'') s1
                     in case events s2 (name module_description) of
                          None \<Rightarrow> (KeyError (name module_description), s2)
                        | Some flag \<Rightarrow>
                            (Finished,
                             cleanup (s2\<lparr>events :=
                                          (events s2)(name module_description \<mapsto> True)\<rparr>))))))"

subsection \<open>The setup phase\<close>





subsection \<open>Observing the container store\<close>

text \<open>The contents, at the time of the call, of the list that \<open>get_containers\<close> returns.\<close>

definition fetched :: "string \<Rightarrow> DFTimewolfState \<Rightarrow> container list" where
  "fetched tag s = heap (snd (get_containers tag s)) (fst (get_containers tag s))"

text \<open>A run of \<open>store_container\<close> calls, one for each container of a list.\<close>

fun store_containers :: "container list \<Rightarrow> DFTimewolfState \<Rightarrow> DFTimewolfState" where
  "store_containers [] s = s"
| "store_containers (c # cs) s = store_containers cs (store_container c s)"

section \<open>Example inputs\<close>

text \<open>A global ledger with a critical entry between two ordinary ones.\<close>

definition ledger_example :: DFTimewolfState where
  "ledger_example =
     init\<lparr>global_errors := [(''slow disk'', False), (''disk full'', True), (''late'', False)]\<rparr>"

text \<open>A state with a local error, a global error and an item in \<open>output\<close>.\<close>

definition cleanup_example :: DFTimewolfState where
  "cleanup_example =
     init\<lparr>errors := [(''disk full'', True)], global_errors := [(''slow disk'', False)],
          state_input := [3], state_output := [7]\<rparr>"

text \<open>A recipe of two modules, the second of which waits for the first.\<close>

definition two_modules :: recipe where
  "two_modules = \<lparr>modules = [\<lparr>name = ''A'', args = [], wants = []\<rparr>,
                              \<lparr>name = ''B'', args = [], wants = [''A'']\<rparr>]\<rparr>"

text \<open>The exception of a factory that does not know a module name.\<close>

definition unresolved :: py_exception where
  "unresolved = \<lparr>isinstance_DFTimewolfError = False, isinstance_Exception = True,
                  exc_message = [], exc_str = ''no such module''\<rparr>"

text \<open>
  Collaborators that know the modules \<open>A\<close> and \<open>B\<close> only, and whose \<open>setup\<close> and
  \<open>process\<close> return without touching the state.
\<close>

definition quiet_env :: collaborators where
  "quiet_env = \<lparr>get_module = (\<lambda>n. if n = ''A'' then Inr 1 else if n = ''B'' then Inr 2
                                     else Inl unresolved),
                import_args_from_dict = (\<lambda>declared cli. Inr (declared @ cli)),
                module_setup = (\<lambda>m a s. (Returned, s)),
                module_process = (\<lambda>m s. (Returned, s))\<rparr>"

text \<open>Three containers of the type \<open>T\<close>, and the state after the first is stored.\<close>

definition earlier_container :: container where
  "earlier_container = \<lparr>CONTAINER_TYPE = ''T'', payload = 0\<rparr>"

definition first_container :: container where
  "first_container = \<lparr>CONTAINER_TYPE = ''T'', payload = 1\<rparr>"

definition second_container :: container where
  "second_container = \<lparr>CONTAINER_TYPE = ''T'', payload = 2\<rparr>"

definition one_stored :: DFTimewolfState where
  "one_stored = store_container earlier_container init"

text \<open>An exception that is an instance of \<open>Exception\<close> and not of \<open>DFTimewolfError\<close>.\<close>

definition value_error :: py_exception where
  "value_error = \<lparr>isinstance_DFTimewolfError = False, isinstance_Exception = True,
                   exc_message = [], exc_str = ''bad value''\<rparr>"

text \<open>An exception that is not an instance of \<open>Exception\<close>, as \<open>sys.exit(1)\<close> raises.\<close>

definition system_exit :: py_exception where
  "system_exit = \<lparr>isinstance_DFTimewolfError = False, isinstance_Exception = False,
                   exc_message = [], exc_str = ''1''\<rparr>"

text \<open>A \<open>DFTimewolfError\<close> with the message \<open>disk full\<close>.\<close>

definition domain_error :: py_exception where
  "domain_error = \<lparr>isinstance_DFTimewolfError = True, isinstance_Exception = True,
                    exc_message = ''disk full'', exc_str = ''disk full''\<rparr>"

text \<open>Collaborators whose \<open>setup\<close> and \<open>process\<close> raise a given exception.\<close>

definition raising_env :: "py_exception \<Rightarrow> collaborators" where
  "raising_env error =
     quiet_env\<lparr>module_setup := (\<lambda>m a s. (Raised error, s)),
               module_process := (\<lambda>m s. (Raised error, s))\<rparr>"

text \<open>Collaborators whose \<open>setup\<close> raises \<open>system_exit\<close> and whose \<open>process\<close> returns.\<close>

definition exiting_setup_env :: collaborators where
  "exiting_setup_env = quiet_env\<lparr>module_setup := (\<lambda>m a s. (Raised system_exit, s))\<rparr>"

text \<open>
  The first module of \<open>two_modules\<close>, the state after the recipe is loaded, and the
  state after the setup task of that module.
\<close>

definition module_A :: module_description where
  "module_A = \<lparr>name = ''A'', args = [], wants = []\<rparr>"

definition loaded :: DFTimewolfState where
  "loaded = snd (load_recipe quiet_env two_modules init)"

definition set_up :: DFTimewolfState where
  "set_up = snd (setup_module_thread quiet_env [] module_A loaded)"

section \<open>Properties of the error ledger\<close>

lemma scan_errors_none:
  "\<forall>e \<in> set errs. \<not> snd e \<Longrightarrow> scan_errors errs = (map error_line errs, CheckReturned)"
  by (induction errs) auto

lemma scan_errors_first_critical:
  "\<forall>e \<in> set pre. \<not> snd e \<Longrightarrow>
   scan_errors (pre @ (msg, True) # post) =
     (map error_line pre @ [error_line (msg, True), ''Critical error found. Aborting.''],
      SysExit (- 1))"
  by (induction pre) auto

lemma scan_errors_exit_iff:
  "(snd (scan_errors errs) = SysExit (- 1)) = (\<exists>e \<in> set errs. snd e)"
  by (induction errs) auto

lemma scan_errors_result:
  "snd (scan_errors errs) = CheckReturned \<or> snd (scan_errors errs) = SysExit (- 1)"
  by (induction errs) (auto split: if_splits)

text \<open>
  C1. \<open>check_errors\<close> leaves through \<open>sys.exit\<close> with a non-zero status exactly when
  the scanned list has a critical entry. When the list is \<open>pre\<close>, then a critical
  entry, then \<open>post\<close>, with no critical entry in \<open>pre\<close>, it prints the header, one
  line for each entry of \<open>pre\<close> in order, the line of the critical entry and the abort
  notice, and exits: \<open>post\<close> has no part in the result. When no entry is critical it
  returns, having printed every entry (after the header, when there is an entry).
\<close>

theorem check_errors_aborts_at_first_critical:
  "((\<exists>code. snd (check_errors s is_global) = SysExit code \<and> code \<noteq> 0)
      = (\<exists>e \<in> set (scanned s is_global). snd e)) \<and>
   (scanned s is_global = pre @ (msg, True) # post \<and> (\<forall>e \<in> set pre. \<not> snd e) \<longrightarrow>
      check_errors s is_global =
        (s\<lparr>stdout := stdout s @ ''dfTimewolf encountered one or more errors:''
                     # map error_line pre
                     @ [error_line (msg, True), ''Critical error found. Aborting.'']\<rparr>,
         SysExit (- 1))) \<and>
   ((\<forall>e \<in> set (scanned s is_global). \<not> snd e) \<longrightarrow>
      snd (check_errors s is_global) = CheckReturned \<and>
      fst (check_errors s is_global) =
        (if scanned s is_global = [] then s
         else s\<lparr>stdout := stdout s @ ''dfTimewolf encountered one or more errors:''
                     # map error_line (scanned s is_global)\<rparr>))"
proof (intro conjI impI)
  show "(\<exists>code. snd (check_errors s is_global) = SysExit code \<and> code \<noteq> 0)
      = (\<exists>e \<in> set (scanned s is_global). snd e)"
  proof (cases "scanned s is_global = []")
    case True
    then show ?thesis by (simp add: check_errors_def)
  next
    case False
    have "(\<exists>code. snd (scan_errors (scanned s is_global)) = SysExit code \<and> code \<noteq> 0)
          = (snd (scan_errors (scanned s is_global)) = SysExit (- 1))"
      using scan_errors_result [of "scanned s is_global"] by auto
    with False show ?thesis
      by (simp add: check_errors_def Let_def scan_errors_exit_iff)
  qed
next
  assume "scanned s is_global = pre @ (msg, True) # post \<and> (\<forall>e \<in> set pre. \<not> snd e)"
  then show "check_errors s is_global =
        (s\<lparr>stdout := stdout s @ ''dfTimewolf encountered one or more errors:''
                     # map error_line pre
                     @ [error_line (msg, True), ''Critical error found. Aborting.'']\<rparr>,
         SysExit (- 1))"
    by (simp add: check_errors_def Let_def scan_errors_first_critical)
next
  assume "\<forall>e \<in> set (scanned s is_global). \<not> snd e"
  then show "snd (check_errors s is_global) = CheckReturned"
    by (simp add: check_errors_def Let_def scan_errors_none)
next
  assume "\<forall>e \<in> set (scanned s is_global). \<not> snd e"
  then show "fst (check_errors s is_global) =
        (if scanned s is_global = [] then s
         else s\<lparr>stdout := stdout s @ ''dfTimewolf encountered one or more errors:''
                     # map error_line (scanned s is_global)\<rparr>)"
    by (simp add: check_errors_def Let_def scan_errors_none)
qed

text \<open>
  The global check of \<open>ledger_example\<close> prints the header, the first entry, the
  critical entry and the abort notice, and exits with status -1; the third entry is
  not printed.
\<close>

theorem check_errors_aborts_at_first_critical_witness:
  "scanned ledger_example True = [(''slow disk'', False)] @ (''disk full'', True) # [(''late'', False)] \<and>
   check_errors ledger_example True =
     (ledger_example\<lparr>stdout :=
        [''dfTimewolf encountered one or more errors:'', ''  slow disk'',
         ''CRITICAL:   disk full'', ''Critical error found. Aborting.'']\<rparr>,
      SysExit (- 1))"
  using check_errors_aborts_at_first_critical
    [of ledger_example True "[(''slow disk'', False)]" "''disk full''" "[(''late'', False)]"]
  by (simp add: ledger_example_def init_def scanned_def error_line_def)

text \<open>
  C10. When the scanned list is empty, \<open>check_errors\<close> prints nothing, not even the
  header, changes nothing and returns.
\<close>

theorem check_errors_empty_silent:
  "scanned s is_global = [] \<Longrightarrow> check_errors s is_global = (s, CheckReturned)"
  by (simp add: check_errors_def)

theorem check_errors_empty_silent_witness:
  "scanned init False = [] \<and> check_errors init False = (init, CheckReturned)"
  using check_errors_empty_silent [of init False]
  by (simp add: scanned_def init_def)

section \<open>Properties of the module pool\<close>

lemma load_modules_ledger:
  "errors (snd (load_modules env mds s)) = errors s \<and>
   global_errors (snd (load_modules env mds s)) = global_errors s"
  by (induction mds arbitrary: s) (auto split: sum.splits)

lemma load_modules_raises:
  "\<exists>md \<in> set mds. isl (get_module env (name md)) \<Longrightarrow>
   \<exists>error. fst (load_modules env mds s) = Raised error \<and>
           (\<exists>md \<in> set mds. get_module env (name md) = Inl error)"
  by (induction mds arbitrary: s) (auto split: sum.splits)

lemma load_modules_returns:
  "\<forall>md \<in> set mds. \<not> isl (get_module env (name md)) \<Longrightarrow>
   fst (load_modules env mds s) = Returned"
  by (induction mds arbitrary: s) (auto split: sum.splits)

lemma load_modules_pool:
  "\<forall>md \<in> set mds. \<not> isl (get_module env (name md)) \<Longrightarrow>
   module_pool (snd (load_modules env mds s)) n =
     (if n \<in> name ` set mds then Some (projr (get_module env n)) else module_pool s n)"
proof (induction mds arbitrary: s)
  case Nil
  then show ?case by simp
next
  case (Cons md mds)
  then obtain m where m: "get_module env (name md) = Inr m"
    by (cases "get_module env (name md)") auto
  from Cons.prems have rest: "\<forall>md \<in> set mds. \<not> isl (get_module env (name md))"
    by simp
  show ?case
    using Cons.IH [OF rest, of "s\<lparr>module_pool := (module_pool s)(name md \<mapsto> m)\<rparr>"] m
    by auto
qed

text \<open>
  C7. When the factory raises for a module name of the recipe, \<open>load_recipe\<close> ends with
  that exception (the one of the first such name) and the two error lists are as they
  were. When it raises for none, \<open>load_recipe\<close> returns, the keys of the module pool
  are the keys it had and the names of the recipe (so exactly the names of the recipe
  when the pool was empty, as \<open>__init__\<close> leaves it), and each name is bound to the
  module the factory gave for it.
\<close>

theorem load_recipe_fails_fast:
  "((\<exists>md \<in> set (modules r). isl (get_module env (name md))) \<longrightarrow>
      (\<exists>error. fst (load_recipe env r s) = Raised error \<and>
               (\<exists>md \<in> set (modules r). get_module env (name md) = Inl error)) \<and>
      errors (snd (load_recipe env r s)) = errors s \<and>
      global_errors (snd (load_recipe env r s)) = global_errors s) \<and>
   ((\<forall>md \<in> set (modules r). \<not> isl (get_module env (name md))) \<longrightarrow>
      fst (load_recipe env r s) = Returned \<and>
      dom (module_pool (snd (load_recipe env r s))) = dom (module_pool s) \<union> name ` set (modules r) \<and>
      (module_pool s = Map.empty \<longrightarrow>
         dom (module_pool (snd (load_recipe env r s))) = name ` set (modules r)) \<and>
      (\<forall>md \<in> set (modules r).
         get_module env (name md) =
           Inr (the (module_pool (snd (load_recipe env r s)) (name md)))))"
proof (intro conjI impI)
  assume bad: "\<exists>md \<in> set (modules r). isl (get_module env (name md))"
  show "\<exists>error. fst (load_recipe env r s) = Raised error \<and>
               (\<exists>md \<in> set (modules r). get_module env (name md) = Inl error)"
    unfolding load_recipe_def by (rule load_modules_raises [OF bad])
  show "errors (snd (load_recipe env r s)) = errors s"
    by (simp add: load_recipe_def load_modules_ledger)
  show "global_errors (snd (load_recipe env r s)) = global_errors s"
    by (simp add: load_recipe_def load_modules_ledger)
next
  assume ok: "\<forall>md \<in> set (modules r). \<not> isl (get_module env (name md))"
  show "fst (load_recipe env r s) = Returned"
    unfolding load_recipe_def by (rule load_modules_returns [OF ok])
  have pool: "module_pool (snd (load_recipe env r s)) n =
     (if n \<in> name ` set (modules r) then Some (projr (get_module env n)) else module_pool s n)"
    for n
    unfolding load_recipe_def using load_modules_pool [OF ok, of "s\<lparr>recipe := Some r\<rparr>" n]
    by simp
  show keys: "dom (module_pool (snd (load_recipe env r s))) =
      dom (module_pool s) \<union> name ` set (modules r)"
    by (auto simp: pool dom_def)
  show "dom (module_pool (snd (load_recipe env r s))) = name ` set (modules r)"
    if "module_pool s = Map.empty"
    using keys that by simp
  show "\<forall>md \<in> set (modules r).
         get_module env (name md) =
           Inr (the (module_pool (snd (load_recipe env r s)) (name md)))"
  proof
    fix md assume md: "md \<in> set (modules r)"
    with ok obtain m where "get_module env (name md) = Inr m"
      by (cases "get_module env (name md)") auto
    with md show "get_module env (name md) =
           Inr (the (module_pool (snd (load_recipe env r s)) (name md)))"
      by (simp add: pool)
  qed
qed

text \<open>
  The recipe \<open>two_modules\<close> loads into the initial state: the pool's keys are \<open>A\<close> and
  \<open>B\<close>. With a third module that the factory does not know, loading ends with the
  factory's exception and an empty ledger.
\<close>

theorem load_recipe_fails_fast_witness:
  "module_pool init = Map.empty \<and>
   fst (load_recipe quiet_env two_modules init) = Returned \<and>
   dom (module_pool (snd (load_recipe quiet_env two_modules init))) = {''A'', ''B''} \<and>
   fst (load_recipe quiet_env
          \<lparr>modules = modules two_modules @ [\<lparr>name = ''C'', args = [], wants = []\<rparr>]\<rparr> init)
     = Raised unresolved \<and>
   errors (snd (load_recipe quiet_env
          \<lparr>modules = modules two_modules @ [\<lparr>name = ''C'', args = [], wants = []\<rparr>]\<rparr> init))
     = []"
  using load_recipe_fails_fast [of two_modules quiet_env init]
    load_recipe_fails_fast
      [of "\<lparr>modules = modules two_modules @ [\<lparr>name = ''C'', args = [], wants = []\<rparr>]\<rparr>"
          quiet_env init]
  by (auto simp add: two_modules_def quiet_env_def init_def)

section \<open>Properties of cleanup\<close>

text \<open>
  C2. After \<open>cleanup\<close> the local error list is empty, the global list is what it was
  followed by the former local entries in their order, \<open>input\<close> is the former
  \<open>output\<close> and \<open>output\<close> is empty, whatever the lists held. No other method
  shortens the local list: \<open>add_error\<close> extends it by one entry, and
  \<open>check_errors\<close>, \<open>store_container\<close>, \<open>get_containers\<close> and \<open>load_recipe\<close> leave it
  as it is.
\<close>

theorem cleanup_moves_errors:
  "errors (cleanup s) = [] \<and>
   global_errors (cleanup s) = global_errors s @ errors s \<and>
   state_input (cleanup s) = state_output s \<and>
   state_output (cleanup s) = [] \<and>
   errors (add_error error critical s) = errors s @ [(error, critical)] \<and>
   errors (fst (check_errors s is_global)) = errors s \<and>
   errors (store_container c s) = errors s \<and>
   errors (snd (get_containers tag s)) = errors s \<and>
   errors (snd (load_recipe env r s)) = errors s"
  by (simp add: cleanup_def add_error_def check_errors_def Let_def store_container_def
      setdefault_def new_list_def list_append_def get_containers_def load_recipe_def
      load_modules_ledger split: option.splits)

theorem cleanup_moves_errors_witness:
  "errors (cleanup cleanup_example) = [] \<and>
   global_errors (cleanup cleanup_example) = [(''slow disk'', False), (''disk full'', True)] \<and>
   state_input (cleanup cleanup_example) = [7] \<and>
   state_output (cleanup cleanup_example) = []"
  using cleanup_moves_errors [of cleanup_example]
  by (simp add: cleanup_example_def init_def)

section \<open>Properties of the container store\<close>

lemma store_container_bound:
  "store s (CONTAINER_TYPE c) = Some a \<Longrightarrow>
   store_container c s = s\<lparr>heap := (heap s)(a := heap s a @ [c])\<rparr>"
  by (simp add: store_container_def setdefault_def list_append_def)

lemma store_container_unbound:
  "store s (CONTAINER_TYPE c) = None \<Longrightarrow>
   store_container c s =
     s\<lparr>heap := (heap s)(next_addr s := [c]), next_addr := Suc (next_addr s),
       store := (store s)(CONTAINER_TYPE c \<mapsto> next_addr s)\<rparr>"
  by (simp add: store_container_def setdefault_def list_append_def new_list_def)

lemma fetched_bound: "store s tag = Some a \<Longrightarrow> fetched tag s = heap s a"
  by (simp add: fetched_def get_containers_def)

lemma fetched_unbound: "store s tag = None \<Longrightarrow> fetched tag s = []"
  by (simp add: fetched_def get_containers_def new_list_def)

lemma fetched_store_container:
  "fetched (CONTAINER_TYPE c) (store_container c s) = fetched (CONTAINER_TYPE c) s @ [c]"
proof (cases "store s (CONTAINER_TYPE c)")
  case None
  then show ?thesis
    by (simp add: store_container_unbound fetched_unbound fetched_bound)
next
  case (Some a)
  then show ?thesis
    by (simp add: store_container_bound fetched_bound)
qed

lemma store_container_other_unbound:
  "store s tag = None \<Longrightarrow> tag \<noteq> CONTAINER_TYPE c \<Longrightarrow> store (store_container c s) tag = None"
  by (cases "store s (CONTAINER_TYPE c)")
     (simp_all add: store_container_unbound store_container_bound)

text \<open>
  C4, as the code has it. Storing \<open>c1\<close> and then \<open>c2\<close>, both of type \<open>tag\<close>, and
  then fetching \<open>tag\<close> gives the list that a fetch gave before, followed by \<open>c1\<close> and
  \<open>c2\<close> in that order; this is \<open>[c1, c2]\<close> when nothing was stored under \<open>tag\<close>
  before. Fetching a type under which nothing is stored gives the empty list, before
  and after the two calls.
\<close>

theorem store_then_get_appends:
  "(CONTAINER_TYPE c1 = tag \<and> CONTAINER_TYPE c2 = tag \<longrightarrow>
      fetched tag (store_container c2 (store_container c1 s)) = fetched tag s @ [c1, c2]) \<and>
   (CONTAINER_TYPE c1 = tag \<and> CONTAINER_TYPE c2 = tag \<and> store s tag = None \<longrightarrow>
      fetched tag (store_container c2 (store_container c1 s)) = [c1, c2]) \<and>
   (store s u = None \<longrightarrow> fetched u s = []) \<and>
   (CONTAINER_TYPE c1 = tag \<and> CONTAINER_TYPE c2 = tag \<and> u \<noteq> tag \<and> store s u = None \<longrightarrow>
      fetched u (store_container c2 (store_container c1 s)) = [])"
proof (intro conjI impI)
  assume t: "CONTAINER_TYPE c1 = tag \<and> CONTAINER_TYPE c2 = tag"
  have "fetched (CONTAINER_TYPE c2) (store_container c2 (store_container c1 s)) =
        fetched (CONTAINER_TYPE c2) (store_container c1 s) @ [c2]"
    by (rule fetched_store_container)
  moreover have "fetched (CONTAINER_TYPE c1) (store_container c1 s) = fetched (CONTAINER_TYPE c1) s @ [c1]"
    by (rule fetched_store_container)
  ultimately show "fetched tag (store_container c2 (store_container c1 s)) = fetched tag s @ [c1, c2]"
    using t by simp
next
  assume t: "CONTAINER_TYPE c1 = tag \<and> CONTAINER_TYPE c2 = tag \<and> store s tag = None"
  have "fetched (CONTAINER_TYPE c2) (store_container c2 (store_container c1 s)) =
        fetched (CONTAINER_TYPE c2) (store_container c1 s) @ [c2]"
    by (rule fetched_store_container)
  moreover have "fetched (CONTAINER_TYPE c1) (store_container c1 s) = fetched (CONTAINER_TYPE c1) s @ [c1]"
    by (rule fetched_store_container)
  ultimately show "fetched tag (store_container c2 (store_container c1 s)) = [c1, c2]"
    using t by (simp add: fetched_unbound)
next
  assume "store s u = None"
  then show "fetched u s = []" by (rule fetched_unbound)
next
  assume t: "CONTAINER_TYPE c1 = tag \<and> CONTAINER_TYPE c2 = tag \<and> u \<noteq> tag \<and> store s u = None"
  then have "store (store_container c2 (store_container c1 s)) u = None"
    by (simp add: store_container_other_unbound)
  then show "fetched u (store_container c2 (store_container c1 s)) = []"
    by (rule fetched_unbound)
qed

text \<open>
  In a state that already holds a container of type \<open>T\<close>, the fetch after storing two
  more gives three containers, not the two just stored.
\<close>

theorem store_then_get_counterexample:
  "fetched ''T'' (store_container second_container (store_container first_container (store_container earlier_container init))) = [earlier_container, first_container, second_container] \<and>
   fetched ''T'' (store_container second_container (store_container first_container (store_container earlier_container init))) \<noteq> [first_container, second_container]"
  by (simp add: fetched_def get_containers_def store_container_def setdefault_def new_list_def
      list_append_def init_def earlier_container_def first_container_def second_container_def)

theorem store_then_get_appends_witness:
  "CONTAINER_TYPE first_container = ''T'' \<and> CONTAINER_TYPE second_container = ''T'' \<and>
   store init ''T'' = None \<and> store init ''U'' = None \<and>
   fetched ''T'' (store_container second_container (store_container first_container init))
     = [first_container, second_container] \<and>
   fetched ''U'' (store_container second_container (store_container first_container init)) = []"
proof -
  have h: "CONTAINER_TYPE first_container = ''T'' \<and> CONTAINER_TYPE second_container = ''T'' \<and>
      store init ''T'' = None \<and> store init ''U'' = None \<and> ''U'' \<noteq> ''T''"
    by (simp add: init_def first_container_def second_container_def)
  show ?thesis
    using h store_then_get_appends [of first_container "''T''" second_container init "''U''"]
    by blast
qed


lemma allocated_init: "allocated init"
  by (simp add: allocated_def init_def)

lemma allocated_store_container: "allocated s \<Longrightarrow> allocated (store_container c s)"
  by (cases "store s (CONTAINER_TYPE c)")
     (auto simp: allocated_def store_container_unbound store_container_bound less_Suc_eq)

lemma allocated_get_containers: "allocated s \<Longrightarrow> allocated (snd (get_containers tag s))"
  by (cases "store s tag") (auto simp: allocated_def get_containers_def new_list_def less_Suc_eq)

lemma allocated_ledger:
  "allocated (add_error error critical s) = allocated s \<and> allocated (cleanup s) = allocated s"
  by (simp add: allocated_def add_error_def cleanup_def)

lemma get_containers_store: "store (snd (get_containers tag s)) = store s"
  by (cases "store s tag") (simp_all add: get_containers_def new_list_def)

lemma get_containers_heap:
  "allocated s \<Longrightarrow> store s t = Some a \<Longrightarrow> heap (snd (get_containers tag s)) a = heap s a"
  by (cases "store s tag") (auto simp: allocated_def get_containers_def new_list_def)

lemma get_containers_all_store:
  "allocated s \<Longrightarrow>
   allocated (get_containers_all tags s) \<and>
   store (get_containers_all tags s) = store s \<and>
   (\<forall>t a. store s t = Some a \<longrightarrow> heap (get_containers_all tags s) a = heap s a)"
proof (induction tags arbitrary: s)
  case Nil
  then show ?case by simp
next
  case (Cons tag tags)
  let ?s = "snd (get_containers tag s)"
  from Cons.prems have a: "allocated ?s" by (rule allocated_get_containers)
  from Cons.IH [OF a] show ?case
    using get_containers_store [of tag s] get_containers_heap [OF Cons.prems, of _ _ tag]
    by simp
qed

text \<open>
  C9. Any run of \<open>get_containers\<close> calls leaves the dict \<open>store\<close> as it was (the same
  keys, bound to the same list objects) and leaves the contents of every list bound in
  it as they were; a call for a type under which nothing is stored gives the empty list
  and binds nothing to that type. The heap invariant \<open>allocated\<close> is assumed of the
  state before.
\<close>

theorem get_containers_leaves_store:
  "allocated s \<Longrightarrow>
   store (get_containers_all tags s) = store s \<and>
   dom (store (get_containers_all tags s)) = dom (store s) \<and>
   (\<forall>t a. store s t = Some a \<longrightarrow> heap (get_containers_all tags s) a = heap s a) \<and>
   (store s u = None \<longrightarrow>
      fetched u s = [] \<and> store (snd (get_containers u s)) u = None)"
  using get_containers_all_store [of s tags]
  by (simp add: fetched_unbound get_containers_store)

lemma one_stored_eq:
  "one_stored = init\<lparr>heap := (\<lambda>_. [])(0 := [earlier_container]), next_addr := Suc 0,
                     store := [''T'' \<mapsto> 0]\<rparr>"
  by (simp add: one_stored_def store_container_def setdefault_def new_list_def list_append_def
      init_def earlier_container_def)

theorem get_containers_leaves_store_witness:
  "allocated one_stored \<and>
   store (get_containers_all [''U'', ''T'', ''U''] one_stored) = [''T'' \<mapsto> 0] \<and>
   heap (get_containers_all [''U'', ''T'', ''U''] one_stored) 0 = [earlier_container] \<and>
   store one_stored ''U'' = None \<and> fetched ''U'' one_stored = [] \<and>
   store (snd (get_containers ''U'' one_stored)) ''U'' = None"
proof -
  have a: "allocated one_stored"
    unfolding one_stored_def by (intro allocated_store_container allocated_init)
  have s: "store one_stored = [''T'' \<mapsto> 0]" and h: "heap one_stored 0 = [earlier_container]"
    by (simp_all add: one_stored_eq)
  have u: "store one_stored ''U'' = None" by (simp add: s)
  show ?thesis
    using a u h get_containers_leaves_store [OF a, of "[''U'', ''T'', ''U'']" "''U''"]
    by (simp add: s)
qed

lemma store_containers_bound:
  "store s tag = Some a \<Longrightarrow> \<forall>c \<in> set cs. CONTAINER_TYPE c = tag \<Longrightarrow>
   store_containers cs s = s\<lparr>heap := (heap s)(a := heap s a @ cs)\<rparr>"
proof (induction cs arbitrary: s)
  case Nil
  then show ?case by simp
next
  case (Cons c cs)
  then have c: "store s (CONTAINER_TYPE c) = Some a" by simp
  let ?s = "s\<lparr>heap := (heap s)(a := heap s a @ [c])\<rparr>"
  have "store_containers (c # cs) s = store_containers cs ?s"
    by (simp add: store_container_bound [OF c])
  also have "\<dots> = ?s\<lparr>heap := (heap ?s)(a := heap ?s a @ cs)\<rparr>"
    using Cons by (intro Cons.IH) simp_all
  also have "\<dots> = s\<lparr>heap := (heap s)(a := heap s a @ c # cs)\<rparr>"
    by (simp add: fun_upd_def cong: if_cong)
  finally show ?case .
qed

lemma store_containers_unbound:
  assumes "store s tag = None" and "\<forall>c \<in> set cs. CONTAINER_TYPE c = tag" and "a < next_addr s"
  shows "heap (store_containers cs s) a = heap s a"
proof (cases cs)
  case Nil
  then show ?thesis by simp
next
  case (Cons c cs')
  with assms have c: "store s (CONTAINER_TYPE c) = None" and t: "CONTAINER_TYPE c = tag"
    and r: "\<forall>c \<in> set cs'. CONTAINER_TYPE c = tag" by simp_all
  let ?s = "store_container c s"
  have b: "store ?s tag = Some (next_addr s)"
    using t by (simp add: store_container_unbound [OF c])
  have "heap (store_containers cs' ?s) a = heap ?s a"
    using assms(3) by (simp add: store_containers_bound [OF b r])
  also have "\<dots> = heap s a"
    using assms(3) by (simp add: store_container_unbound [OF c])
  finally show ?thesis using Cons by simp
qed

text \<open>
  C8, as the code has it. For a type that has a list in the store, \<open>get_containers\<close>
  returns that list object itself and changes nothing: after later \<open>store_container\<close>
  calls for containers \<open>cs\<close> of that type, the returned list holds what it held
  followed by \<open>cs\<close>. Only for a type with no list in the store is the returned list
  (a new empty one) left alone by later calls for that type.
\<close>

theorem get_containers_returns_live_list:
  "(store s tag = Some a \<and> (\<forall>c \<in> set cs. CONTAINER_TYPE c = tag) \<longrightarrow>
      get_containers tag s = (a, s) \<and>
      heap (store_containers cs s) a = heap s a @ cs) \<and>
   (store s tag = None \<and> (\<forall>c \<in> set cs. CONTAINER_TYPE c = tag) \<longrightarrow>
      heap (snd (get_containers tag s)) (fst (get_containers tag s)) = [] \<and>
      heap (store_containers cs (snd (get_containers tag s))) (fst (get_containers tag s)) = [])"
proof (intro conjI impI)
  assume h: "store s tag = Some a \<and> (\<forall>c \<in> set cs. CONTAINER_TYPE c = tag)"
  then show "get_containers tag s = (a, s)" by (simp add: get_containers_def)
  from h show "heap (store_containers cs s) a = heap s a @ cs"
    by (simp add: store_containers_bound [of s tag a cs])
next
  assume h: "store s tag = None \<and> (\<forall>c \<in> set cs. CONTAINER_TYPE c = tag)"
  then show e: "heap (snd (get_containers tag s)) (fst (get_containers tag s)) = []"
    by (simp add: get_containers_def new_list_def)
  have "heap (store_containers cs (snd (get_containers tag s))) (fst (get_containers tag s)) =
        heap (snd (get_containers tag s)) (fst (get_containers tag s))"
    using h by (intro store_containers_unbound [of _ tag]) (simp_all add: get_containers_def new_list_def)
  with e show "heap (store_containers cs (snd (get_containers tag s))) (fst (get_containers tag s)) = []"
    by simp
qed

text \<open>
  With one container of type \<open>T\<close> stored, the list returned by \<open>get_containers\<close> holds
  one container at the return and two after the next \<open>store_container\<close> of that type.
\<close>

theorem get_containers_snapshot_counterexample:
  "heap (snd (get_containers ''T'' one_stored)) (fst (get_containers ''T'' one_stored))
     = [earlier_container] \<and>
   heap (store_container first_container (snd (get_containers ''T'' one_stored)))
        (fst (get_containers ''T'' one_stored))
     = [earlier_container, first_container] \<and>
   heap (store_container first_container (snd (get_containers ''T'' one_stored)))
        (fst (get_containers ''T'' one_stored))
     \<noteq> heap (snd (get_containers ''T'' one_stored)) (fst (get_containers ''T'' one_stored))"
  by (simp add: one_stored_eq get_containers_def store_container_def setdefault_def list_append_def
      init_def first_container_def)

theorem get_containers_returns_live_list_witness:
  "store one_stored ''T'' = Some 0 \<and> CONTAINER_TYPE first_container = ''T'' \<and>
   get_containers ''T'' one_stored = (0, one_stored) \<and>
   heap (store_containers [first_container] one_stored) 0 = [earlier_container, first_container] \<and>
   store init ''T'' = None \<and>
   heap (store_containers [first_container] (snd (get_containers ''T'' init)))
        (fst (get_containers ''T'' init)) = []"
proof -
  have h: "store one_stored ''T'' = Some 0 \<and> (\<forall>c \<in> set [first_container]. CONTAINER_TYPE c = ''T'')"
    by (simp add: one_stored_eq first_container_def)
  have g: "store init ''T'' = None \<and> (\<forall>c \<in> set [first_container]. CONTAINER_TYPE c = ''T'')"
    by (simp add: init_def first_container_def)
  have e: "heap one_stored 0 = [earlier_container]" by (simp add: one_stored_eq)
  show ?thesis
    using h g e get_containers_returns_live_list [of one_stored "''T''" 0 "[first_container]"]
      get_containers_returns_live_list [of init "''T''" 0 "[first_container]"]
    by simp
qed

section \<open>Properties of the setup and run tasks\<close>

lemma loaded_eq:
  "loaded = init\<lparr>recipe := Some two_modules, module_pool := [''A'' \<mapsto> 1, ''B'' \<mapsto> 2]\<rparr>"
  by (simp add: loaded_def load_recipe_def two_modules_def quiet_env_def init_def)

lemma set_up_eq:
  "set_up = init\<lparr>recipe := Some two_modules, module_pool := [''A'' \<mapsto> 1, ''B'' \<mapsto> 2],
                 events := [''A'' \<mapsto> False]\<rparr>"
  by (simp add: set_up_def loaded_eq setup_module_thread_def setup_try_def cleanup_def
      quiet_env_def module_A_def init_def)

lemma setup_module_thread_handled:
  assumes "import_args_from_dict env (args md) cli = Inr new_args"
    and "module_pool s (name md) = Some m"
    and "setup_try (fst (module_setup env m new_args s)) (snd (module_setup env m new_args s)) = Inr s2"
  shows "setup_module_thread env cli md s =
           (Finished, cleanup (s2\<lparr>events := (events s2)(name md \<mapsto> False)\<rparr>))"
  using assms by (simp add: setup_module_thread_def)


lemma setup_try_cases:
  "setup_try Returned s = Inr s"
  "isinstance_Exception error \<Longrightarrow>
     setup_try (Raised error) s = Inr (add_error (''An unknown error occurred: '' @ exc_str error) True s)"
  "\<not> isinstance_Exception error \<Longrightarrow> setup_try (Raised error) s = Inl error"
  by (simp_all add: setup_try_def)

lemma cleanup_fields:
  "errors (cleanup s) = []"
  "global_errors (cleanup s) = global_errors s @ errors s"
  "state_input (cleanup s) = state_output s"
  "state_output (cleanup s) = []"
  "events (cleanup s) = events s"
  "stdout (cleanup s) = stdout s"
  by (simp_all add: cleanup_def)

text \<open>
  C3, as the code has it. When \<open>module.setup\<close> is invoked and returns, or raises an
  instance of \<open>Exception\<close>, the setup task finishes and the module's event has been
  created by then; its flag is not set (\<open>threading.Event()\<close> starts unset, and the
  setup task does not call \<open>set()\<close>).
\<close>

theorem setup_creates_unset_event:
  assumes "import_args_from_dict env (args md) cli = Inr new_args"
    and "module_pool s (name md) = Some m"
    and "fst (module_setup env m new_args s) = Returned \<or>
         (\<exists>error. fst (module_setup env m new_args s) = Raised error \<and> isinstance_Exception error)"
  shows "fst (setup_module_thread env cli md s) = Finished \<and>
         events (snd (setup_module_thread env cli md s)) (name md) = Some False"
proof -
  from assms(3) obtain s2 where
    "setup_try (fst (module_setup env m new_args s)) (snd (module_setup env m new_args s)) = Inr s2"
    by (auto simp: setup_try_cases)
  from setup_module_thread_handled [OF assms(1,2) this] show ?thesis
    by (simp add: cleanup_fields)
qed

text \<open>
  After the setup task of a module whose \<open>setup\<close> returns, the module's event exists
  and is not set. When \<open>setup\<close> raises an exception that is not an instance of
  \<open>Exception\<close>, the exception leaves the task and no event has been created.
\<close>

theorem setup_event_set_counterexample:
  "fst (setup_module_thread quiet_env [] module_A loaded) = Finished \<and>
   events (snd (setup_module_thread quiet_env [] module_A loaded)) ''A'' = Some False \<and>
   events (snd (setup_module_thread quiet_env [] module_A loaded)) ''A'' \<noteq> Some True \<and>
   fst (setup_module_thread (raising_env system_exit) [] module_A loaded) = Propagated system_exit \<and>
   events (snd (setup_module_thread (raising_env system_exit) [] module_A loaded)) ''A'' = None"
  by (simp add: loaded_eq setup_module_thread_def setup_try_def cleanup_def raising_env_def
      quiet_env_def module_A_def init_def system_exit_def)

theorem setup_creates_unset_event_witness:
  "import_args_from_dict (raising_env value_error) (args module_A) [] = Inr [] \<and>
   module_pool loaded (name module_A) = Some 1 \<and>
   fst (module_setup (raising_env value_error) 1 [] loaded) = Raised value_error \<and>
   isinstance_Exception value_error \<and>
   fst (setup_module_thread (raising_env value_error) [] module_A loaded) = Finished \<and>
   events (snd (setup_module_thread (raising_env value_error) [] module_A loaded)) (name module_A)
     = Some False"
proof -
  have a: "import_args_from_dict (raising_env value_error) (args module_A) [] = Inr []"
    by (simp add: raising_env_def quiet_env_def module_A_def)
  have b: "module_pool loaded (name module_A) = Some 1"
    by (simp add: loaded_eq module_A_def init_def)
  have c: "fst (module_setup (raising_env value_error) 1 [] loaded) = Raised value_error"
    by (simp add: raising_env_def)
  have d: "isinstance_Exception value_error" by (simp add: value_error_def)
  from c d have e: "fst (module_setup (raising_env value_error) 1 [] loaded) = Returned \<or>
         (\<exists>error. fst (module_setup (raising_env value_error) 1 [] loaded) = Raised error \<and>
                  isinstance_Exception error)"
    by simp
  show ?thesis using a b c d setup_creates_unset_event [OF a b e] by simp
qed







lemma run_try_cases:
  "run_try Returned s = Inr s"
  "isinstance_DFTimewolfError error \<Longrightarrow>
     run_try (Raised error) s = Inr (add_error (exc_message error) True s)"
  "\<not> isinstance_DFTimewolfError error \<Longrightarrow> isinstance_Exception error \<Longrightarrow>
     run_try (Raised error) s = Inr (add_error (''An unknown error occurred: '' @ exc_str error) True s)"
  "\<not> isinstance_DFTimewolfError error \<Longrightarrow> \<not> isinstance_Exception error \<Longrightarrow>
     run_try (Raised error) s = Inl error"
  by (simp_all add: run_try_def)

lemma run_module_thread_handled:
  assumes "wait_blockers (events s) (wants md) = Finished"
    and "module_pool s (name md) = Some m"
    and "run_try (fst (module_process env m s)) (snd (module_process env m s)) = Inr s2"
    and "events s2 (name md) = Some flag"
  shows "run_module_thread env md s =
           (Finished,
            cleanup ((print (''Module '' @ name md @ '' completed'') s2)
                       \<lparr>events := (events s2)(name md \<mapsto> True)\<rparr>))"
  using assms by (simp add: run_module_thread_def Let_def print_def)

lemma run_module_thread_propagates:
  assumes "wait_blockers (events s) (wants md) = Finished"
    and "module_pool s (name md) = Some m"
    and "run_try (fst (module_process env m s)) (snd (module_process env m s)) = Inl error"
  shows "run_module_thread env md s = (Propagated error, snd (module_process env m s))"
  using assms by (simp add: run_module_thread_def)

lemma run_try_ledger:
  assumes "run_try oc s1 = Inr s2"
  shows "events s2 = events s1 \<and> stdout s2 = stdout s1 \<and> state_output s2 = state_output s1 \<and>
         global_errors s2 = global_errors s1 \<and>
         errors s2 = errors s1 @
           (case oc of
              Returned \<Rightarrow> []
            | Raised error \<Rightarrow>
                [(if isinstance_DFTimewolfError error then exc_message error
                  else ''An unknown error occurred: '' @ exc_str error, True)])"
  using assms by (auto simp: run_try_def add_error_def split: outcome.splits if_splits)

text \<open>
  C5, as the code has it. Let the waits of the run task pass. When \<open>process\<close> returns,
  or raises a \<open>DFTimewolfError\<close> or an instance of \<open>Exception\<close>, and the module's event
  exists, the task finishes; the global list ends with what \<open>process\<close> left in the
  local list followed, after a \<open>DFTimewolfError\<close>, by its message marked critical and,
  after another instance of \<open>Exception\<close>, by \<open>An unknown error occurred: \<close> and
  \<open>str(error)\<close> marked critical; the completion notice is the last line printed; the
  module's event is set; and \<open>cleanup\<close> has run (the local list and \<open>output\<close> are
  empty, \<open>input\<close> is the former \<open>output\<close>). When \<open>process\<close> raises an exception that
  is neither, the exception leaves the task in the state \<open>process\<close> left: nothing is
  recorded or printed, the event is not set and \<open>cleanup\<close> does not run. When the
  module's event does not exist, the entry is recorded in the local list and the notice
  is printed, and then \<open>self.events[name]\<close> raises \<open>KeyError\<close>: no event is set and
  \<open>cleanup\<close> does not run.
\<close>

theorem run_records_failure_and_completes:
  assumes "wait_blockers (events s) (wants md) = Finished"
    and "module_pool s (name md) = Some m"
    and "module_process env m s = (oc, s1)"
  shows "((oc = Returned \<or>
           (\<exists>error. oc = Raised error \<and>
                    (isinstance_DFTimewolfError error \<or> isinstance_Exception error))) \<and>
          events s1 (name md) \<noteq> None \<longrightarrow>
            fst (run_module_thread env md s) = Finished \<and>
            global_errors (snd (run_module_thread env md s)) =
              global_errors s1 @ errors s1 @
                (case oc of
                   Returned \<Rightarrow> []
                 | Raised error \<Rightarrow>
                     [(if isinstance_DFTimewolfError error then exc_message error
                       else ''An unknown error occurred: '' @ exc_str error, True)]) \<and>
            errors (snd (run_module_thread env md s)) = [] \<and>
            stdout (snd (run_module_thread env md s)) =
              stdout s1 @ [''Module '' @ name md @ '' completed''] \<and>
            events (snd (run_module_thread env md s)) (name md) = Some True \<and>
            state_input (snd (run_module_thread env md s)) = state_output s1 \<and>
            state_output (snd (run_module_thread env md s)) = []) \<and>
         (\<forall>error. oc = Raised error \<and> \<not> isinstance_DFTimewolfError error \<and>
                  \<not> isinstance_Exception error \<longrightarrow>
            run_module_thread env md s = (Propagated error, s1)) \<and>
         ((oc = Returned \<or>
           (\<exists>error. oc = Raised error \<and>
                    (isinstance_DFTimewolfError error \<or> isinstance_Exception error))) \<and>
          events s1 (name md) = None \<longrightarrow>
            fst (run_module_thread env md s) = KeyError (name md) \<and>
            global_errors (snd (run_module_thread env md s)) = global_errors s1 \<and>
            errors (snd (run_module_thread env md s)) =
              errors s1 @
                (case oc of
                   Returned \<Rightarrow> []
                 | Raised error \<Rightarrow>
                     [(if isinstance_DFTimewolfError error then exc_message error
                       else ''An unknown error occurred: '' @ exc_str error, True)]) \<and>
            stdout (snd (run_module_thread env md s)) =
              stdout s1 @ [''Module '' @ name md @ '' completed''] \<and>
            events (snd (run_module_thread env md s)) (name md) = None \<and>
            state_output (snd (run_module_thread env md s)) = state_output s1)"
proof (intro conjI allI impI)
  assume h: "(oc = Returned \<or>
           (\<exists>error. oc = Raised error \<and>
                    (isinstance_DFTimewolfError error \<or> isinstance_Exception error))) \<and>
          events s1 (name md) \<noteq> None"
  then have "\<exists>s2. run_try oc s1 = Inr s2"
    by (auto simp: run_try_def)
  then obtain s2 where t: "run_try oc s1 = Inr s2" ..
  note l = run_try_ledger [OF t]
  from t assms(3) have t': "run_try (fst (module_process env m s)) (snd (module_process env m s)) = Inr s2"
    by simp
  from l h obtain flag where e: "events s2 (name md) = Some flag" by auto
  note r = run_module_thread_handled [OF assms(1,2) t' e]
  show "fst (run_module_thread env md s) = Finished" by (simp add: r)
  show "global_errors (snd (run_module_thread env md s)) =
              global_errors s1 @ errors s1 @
                (case oc of
                   Returned \<Rightarrow> []
                 | Raised error \<Rightarrow>
                     [(if isinstance_DFTimewolfError error then exc_message error
                       else ''An unknown error occurred: '' @ exc_str error, True)])"
    by (simp add: r cleanup_fields print_def l)
  show "errors (snd (run_module_thread env md s)) = []"
    by (simp add: r cleanup_fields)
  show "stdout (snd (run_module_thread env md s)) =
              stdout s1 @ [''Module '' @ name md @ '' completed'']"
    by (simp add: r cleanup_fields print_def l)
  show "events (snd (run_module_thread env md s)) (name md) = Some True"
    by (simp add: r cleanup_fields print_def)
  show "state_input (snd (run_module_thread env md s)) = state_output s1"
    by (simp add: r cleanup_fields print_def l)
  show "state_output (snd (run_module_thread env md s)) = []"
    by (simp add: r cleanup_fields)
next
  fix error
  assume "oc = Raised error \<and> \<not> isinstance_DFTimewolfError error \<and> \<not> isinstance_Exception error"
  with assms(3) have
    "run_try (fst (module_process env m s)) (snd (module_process env m s)) = Inl error"
    by (simp add: run_try_cases)
  from run_module_thread_propagates [OF assms(1,2) this] assms(3)
  show "run_module_thread env md s = (Propagated error, s1)" by simp
next
  assume h: "(oc = Returned \<or>
           (\<exists>error. oc = Raised error \<and>
                    (isinstance_DFTimewolfError error \<or> isinstance_Exception error))) \<and>
          events s1 (name md) = None"
  then have "\<exists>s2. run_try oc s1 = Inr s2"
    by (auto simp: run_try_def)
  then obtain s2 where t: "run_try oc s1 = Inr s2" ..
  note l = run_try_ledger [OF t]
  from t assms(3) have t': "run_try (fst (module_process env m s)) (snd (module_process env m s)) = Inr s2"
    by simp
  from l h have e: "events s2 (name md) = None" by simp
  have r: "run_module_thread env md s =
      (KeyError (name md), print (''Module '' @ name md @ '' completed'') s2)"
    using assms(1,2) t' e by (simp add: run_module_thread_def Let_def print_def)
  show "fst (run_module_thread env md s) = KeyError (name md)" by (simp add: r)
  show "global_errors (snd (run_module_thread env md s)) = global_errors s1"
    by (simp add: r print_def l)
  show "errors (snd (run_module_thread env md s)) =
              errors s1 @
                (case oc of
                   Returned \<Rightarrow> []
                 | Raised error \<Rightarrow>
                     [(if isinstance_DFTimewolfError error then exc_message error
                       else ''An unknown error occurred: '' @ exc_str error, True)])"
    by (simp add: r print_def l)
  show "stdout (snd (run_module_thread env md s)) =
              stdout s1 @ [''Module '' @ name md @ '' completed'']"
    by (simp add: r print_def l)
  show "events (snd (run_module_thread env md s)) (name md) = None"
    by (simp add: r print_def e)
  show "state_output (snd (run_module_thread env md s)) = state_output s1"
    by (simp add: r print_def l)
qed

text \<open>
  A \<open>process\<close> that raises an exception outside \<open>Exception\<close> and \<open>DFTimewolfError\<close>:
  the exception leaves the task; nothing is recorded or printed and the module's event
  stays unset. And a module whose \<open>setup\<close> raised such an exception, so that its setup
  task created no event: its run task prints the notice and ends with \<open>KeyError\<close>,
  without an event to set and without \<open>cleanup\<close>.
\<close>

theorem run_catches_all_counterexample:
  "wait_blockers (events set_up) (wants module_A) = Finished \<and>
   module_process (raising_env system_exit) 1 set_up = (Raised system_exit, set_up) \<and>
   run_module_thread (raising_env system_exit) module_A set_up = (Propagated system_exit, set_up) \<and>
   errors set_up = [] \<and> global_errors set_up = [] \<and> stdout set_up = [] \<and>
   events set_up ''A'' = Some False \<and>
   setup_module_thread exiting_setup_env [] module_A loaded = (Propagated system_exit, loaded) \<and>
   module_process exiting_setup_env 1 loaded = (Returned, loaded) \<and>
   run_module_thread exiting_setup_env module_A loaded =
     (KeyError ''A'', loaded\<lparr>stdout := [''Module A completed'']\<rparr>) \<and>
   events loaded ''A'' = None"
  by (simp add: set_up_eq loaded_eq run_module_thread_def run_try_def raising_env_def
      setup_module_thread_def setup_try_def exiting_setup_env_def print_def
      quiet_env_def module_A_def init_def system_exit_def)

theorem run_records_failure_and_completes_witness:
  "wait_blockers (events set_up) (wants module_A) = Finished \<and>
   module_pool set_up (name module_A) = Some 1 \<and>
   module_process (raising_env domain_error) 1 set_up = (Raised domain_error, set_up) \<and>
   events set_up (name module_A) = Some False \<and>
   isinstance_DFTimewolfError domain_error \<and>
   fst (run_module_thread (raising_env domain_error) module_A set_up) = Finished \<and>
   global_errors (snd (run_module_thread (raising_env domain_error) module_A set_up)) =
     [(''disk full'', True)] \<and>
   errors (snd (run_module_thread (raising_env domain_error) module_A set_up)) = [] \<and>
   stdout (snd (run_module_thread (raising_env domain_error) module_A set_up)) =
     [''Module A completed''] \<and>
   events (snd (run_module_thread (raising_env domain_error) module_A set_up)) ''A'' = Some True \<and>
   module_process (raising_env system_exit) 1 set_up = (Raised system_exit, set_up) \<and>
   \<not> isinstance_DFTimewolfError system_exit \<and> \<not> isinstance_Exception system_exit \<and>
   run_module_thread (raising_env system_exit) module_A set_up = (Propagated system_exit, set_up) \<and>
   wait_blockers (events loaded) (wants module_A) = Finished \<and>
   module_pool loaded (name module_A) = Some 1 \<and>
   module_process exiting_setup_env 1 loaded = (Returned, loaded) \<and>
   events loaded (name module_A) = None \<and>
   fst (run_module_thread exiting_setup_env module_A loaded) = KeyError ''A'' \<and>
   stdout (snd (run_module_thread exiting_setup_env module_A loaded)) = [''Module A completed'']"
proof -
  have a: "wait_blockers (events set_up) (wants module_A) = Finished"
    by (simp add: module_A_def)
  have b: "module_pool set_up (name module_A) = Some 1"
    by (simp add: set_up_eq module_A_def init_def)
  have c: "module_process (raising_env domain_error) 1 set_up = (Raised domain_error, set_up)"
    by (simp add: raising_env_def)
  have d: "events set_up (name module_A) = Some False"
    by (simp add: set_up_eq module_A_def init_def)
  have e: "isinstance_DFTimewolfError domain_error" and e': "exc_message domain_error = ''disk full''"
    by (simp_all add: domain_error_def)
  have l: "errors set_up = []" "global_errors set_up = []" "stdout set_up = []"
    by (simp_all add: set_up_eq init_def)
  have n: "name module_A = ''A''" by (simp add: module_A_def)
  have c2: "module_process (raising_env system_exit) 1 set_up = (Raised system_exit, set_up)"
    by (simp add: raising_env_def)
  have e2: "\<not> isinstance_DFTimewolfError system_exit" "\<not> isinstance_Exception system_exit"
    by (simp_all add: system_exit_def)
  have a3: "wait_blockers (events loaded) (wants module_A) = Finished"
    by (simp add: module_A_def)
  have b3: "module_pool loaded (name module_A) = Some 1"
    by (simp add: loaded_eq module_A_def init_def)
  have c3: "module_process exiting_setup_env 1 loaded = (Returned, loaded)"
    by (simp add: exiting_setup_env_def quiet_env_def)
  have d3: "events loaded (name module_A) = None"
    by (simp add: loaded_eq module_A_def init_def)
  have l3: "stdout loaded = []" by (simp add: loaded_eq init_def)
  show ?thesis
    using a b c d e c2 e2 a3 b3 c3 d3
      run_records_failure_and_completes [OF a b c]
      run_records_failure_and_completes [OF a b c2]
      run_records_failure_and_completes [OF a3 b3 c3]
    by (simp add: e' l l3 n)
qed

end
